theory Spec2Isabelle
  imports Main "HOL-Library.Word" "HOL-Library.Sublist"
begin

section \<open>The export command for GitRepository sources\<close>

text \<open>
  A shallow embedding of \<^verbatim>\<open>cmd/flux/export_source_git.go\<close>: the command
  \<^verbatim>\<open>flux export source git\<close>, which reads one or all GitRepository objects of a
  namespace through the Kubernetes API client and prints each of them, and on request
  the Secret it refers to, as a YAML document.

  The command's effects are the calls it makes to the API client, the lines it prints to
  standard output and the line it logs. They are recorded, in program order, in a trace
  that is threaded through every function together with the state of the cluster, so
  that the answers of the API client may depend on everything that happened before.
\<close>

subsection \<open>Errors\<close>

text \<open>
  A Go \<^verbatim>\<open>error\<close> value. \<open>External\<close> is an error made outside this file (by the API
  client, by the YAML encoder, by the client constructor), known by its message;
  \<open>Errorf\<close> is the result of \<^verbatim>\<open>fmt.Errorf\<close> with a format that has no \<^verbatim>\<open>%w\<close>;
  \<open>ErrorfW\<close> is the result of \<^verbatim>\<open>fmt.Errorf\<close> with one \<^verbatim>\<open>%w\<close>: the formatted message
  and the error it wraps. A function that returns \<^verbatim>\<open>nil\<close> returns \<open>None\<close>.
\<close>

datatype error =
    External string
  | Errorf string
  | ErrorfW string error

text \<open>The method \<^verbatim>\<open>Error()\<close>, and \<^verbatim>\<open>errors.Unwrap\<close>.\<close>

fun Error :: "error \<Rightarrow> string" where
  "Error (External s) = s"
| "Error (Errorf s) = s"
| "Error (ErrorfW s e) = s"

fun Unwrap :: "error \<Rightarrow> error option" where
  "Unwrap (External s) = None"
| "Unwrap (Errorf s) = None"
| "Unwrap (ErrorfW s e) = Some e"

subsection \<open>The resource types of the imported packages\<close>

text \<open>
  The types below are declared in the packages the file imports (\<^verbatim>\<open>metav1\<close>,
  \<^verbatim>\<open>corev1\<close>, \<^verbatim>\<open>sourcev1\<close>, \<^verbatim>\<open>types\<close>), not in this repository. A Go struct is a
  record, a pointer field an \<open>option\<close> (\<^verbatim>\<open>nil\<close> is \<open>None\<close>), a slice a list (\<^verbatim>\<open>nil\<close> is
  \<open>[]\<close>), a \<^verbatim>\<open>map[string]string\<close> an optional map (\<^verbatim>\<open>nil\<close> is \<open>None\<close>), \<^verbatim>\<open>int64\<close> a
  64-bit word, \<^verbatim>\<open>[]byte\<close> a string. Field names that occur in several structs carry the
  struct's name as a prefix where Isabelle needs them apart. Each struct comes with its
  zero value, the value of a field that a composite literal does not mention.
\<close>

type_synonym bytes = string
type_synonym Duration = "64 word"
type_synonym string_map = "(string \<rightharpoonup> string) option"

record Time =
  wall :: "64 word"
  ext :: "64 word"

definition Time_zero :: Time where
  "Time_zero = \<lparr>wall = 0, ext = 0\<rparr>"

record TypeMeta =
  Kind :: string
  APIVersion :: string

definition TypeMeta_zero :: TypeMeta where
  "TypeMeta_zero = \<lparr>Kind = [], APIVersion = []\<rparr>"

record OwnerReference =
  owner_APIVersion :: string
  owner_Kind :: string
  owner_Name :: string
  owner_UID :: string
  owner_Controller :: "bool option"
  owner_BlockOwnerDeletion :: "bool option"

record ManagedFieldsEntry =
  Manager :: string
  Operation :: string
  managed_APIVersion :: string
  managed_Time :: "Time option"
  FieldsType :: string
  FieldsV1 :: "bytes option"

record ObjectMeta =
  Name :: string
  GenerateName :: string
  Namespace :: string
  SelfLink :: string
  UID :: string
  ResourceVersion :: string
  Generation :: "64 word"
  CreationTimestamp :: Time
  DeletionTimestamp :: "Time option"
  DeletionGracePeriodSeconds :: "64 word option"
  Labels :: string_map
  Annotations :: string_map
  OwnerReferences :: "OwnerReference list"
  Finalizers :: "string list"
  ClusterName :: string
  ManagedFields :: "ManagedFieldsEntry list"

definition ObjectMeta_zero :: ObjectMeta where
  "ObjectMeta_zero =
     \<lparr>Name = [], GenerateName = [], Namespace = [], SelfLink = [], UID = [],
      ResourceVersion = [], Generation = 0, CreationTimestamp = Time_zero,
      DeletionTimestamp = None, DeletionGracePeriodSeconds = None,
      Labels = None, Annotations = None, OwnerReferences = [], Finalizers = [],
      ClusterName = [], ManagedFields = []\<rparr>"

record LocalObjectReference =
  ref_Name :: string

record GitRepositoryRef =
  Branch :: string
  Tag :: string
  SemVer :: string
  Commit :: string

record GitRepositoryVerify =
  Mode :: string
  verify_SecretRef :: LocalObjectReference

record GitRepositorySpec =
  URL :: string
  SecretRef :: "LocalObjectReference option"
  Interval :: Duration
  Timeout :: "Duration option"
  Reference :: "GitRepositoryRef option"
  Verification :: "GitRepositoryVerify option"
  Ignore :: "string option"
  Suspend :: bool
  GitImplementation :: string

record Condition =
  cond_Type :: string
  cond_Status :: string
  cond_ObservedGeneration :: "64 word"
  cond_LastTransitionTime :: Time
  cond_Reason :: string
  cond_Message :: string

record Artifact =
  artifact_Path :: string
  artifact_URL :: string
  artifact_Revision :: string
  artifact_Checksum :: string
  artifact_LastUpdateTime :: Time

record GitRepositoryStatus =
  status_ObservedGeneration :: "64 word"
  status_Conditions :: "Condition list"
  status_URL :: string
  status_Artifact :: "Artifact option"
  status_LastHandledReconcileAt :: string

definition GitRepositoryStatus_zero :: GitRepositoryStatus where
  "GitRepositoryStatus_zero =
     \<lparr>status_ObservedGeneration = 0, status_Conditions = [], status_URL = [],
      status_Artifact = None, status_LastHandledReconcileAt = []\<rparr>"

record GitRepository =
  TypeMeta :: TypeMeta
  ObjectMeta :: ObjectMeta
  Spec :: GitRepositorySpec
  Status :: GitRepositoryStatus

record Secret =
  secret_TypeMeta :: TypeMeta
  secret_ObjectMeta :: ObjectMeta
  Immutable :: "bool option"
  Data :: "(string \<rightharpoonup> bytes) option"
  StringData :: string_map
  Type :: string

record NamespacedName =
  nn_Namespace :: string
  nn_Name :: string

text \<open>
  \<^verbatim>\<open>schema.GroupVersion\<close> and \<^verbatim>\<open>schema.GroupVersionKind\<close> with the three methods
  \<^verbatim>\<open>exportGit\<close> calls: \<^verbatim>\<open>WithKind\<close>, \<^verbatim>\<open>GroupVersion\<close> and \<^verbatim>\<open>String\<close> (the group
  and the version joined by a slash, or the version alone when the group is empty).
\<close>

record GroupVersion =
  gv_Group :: string
  gv_Version :: string

record GroupVersionKind =
  gvk_Group :: string
  gvk_Version :: string
  gvk_Kind :: string

definition WithKind :: "GroupVersion \<Rightarrow> string \<Rightarrow> GroupVersionKind" where
  "WithKind gv kind = \<lparr>gvk_Group = gv_Group gv, gvk_Version = gv_Version gv, gvk_Kind = kind\<rparr>"

definition gvk_GroupVersion :: "GroupVersionKind \<Rightarrow> GroupVersion" where
  "gvk_GroupVersion gvk = \<lparr>gv_Group = gvk_Group gvk, gv_Version = gvk_Version gvk\<rparr>"

definition gv_String :: "GroupVersion \<Rightarrow> string" where
  "gv_String gv =
     (if length (gv_Group gv) > 0 then gv_Group gv @ ''/'' @ gv_Version gv
      else gv_Version gv)"

subsection \<open>Contexts, the API client and the trace\<close>

text \<open>
  A \<^verbatim>\<open>context.Context\<close>, as far as the command builds one: the background context,
  or a context derived from a parent with a timeout.
\<close>

datatype "context" = Background | WithTimeout "context" Duration

text \<open>
  What the command does to the world, in program order: the construction of the client,
  the three kinds of API-client call with the context and the arguments they are made
  with, a line printed by \<^verbatim>\<open>fmt.Println\<close>, a message logged by
  \<^verbatim>\<open>logger.Failuref\<close>, and the deferred \<^verbatim>\<open>cancel()\<close> of the context.
\<close>

datatype event =
    NewKubeClient string string
  | CallList "context" string
  | CallGetGitRepository "context" NamespacedName
  | CallGetSecret "context" NamespacedName
  | Printed string
  | LoggedFailure string
  | Cancelled

record 'k world =
  cluster :: 'k
  trace :: "event list"

text \<open>
  The \<^verbatim>\<open>client.Client\<close> that \<^verbatim>\<open>utils.KubeClient\<close> returns. The API server is not
  part of the program: each method is a parameter that maps the state of the cluster,
  the context and the arguments to the error or the object read, and the next state of
  the cluster. \<^verbatim>\<open>Get\<close> is one Go method; it is split by the type of the object it fills.
\<close>

record 'k Client =
  client_List :: "'k \<Rightarrow> context \<Rightarrow> string \<Rightarrow> (error + GitRepository list) \<times> 'k"
  client_Get_GitRepository :: "'k \<Rightarrow> context \<Rightarrow> NamespacedName \<Rightarrow> (error + GitRepository) \<times> 'k"
  client_Get_Secret :: "'k \<Rightarrow> context \<Rightarrow> NamespacedName \<Rightarrow> (error + Secret) \<times> 'k"

text \<open>
  What the file uses and does not define, taken as parameters: \<^verbatim>\<open>utils.KubeClient\<close>
  and \<^verbatim>\<open>resourceToString\<close> of this repository, \<^verbatim>\<open>yaml.Marshal\<close> at the two types it is
  called with, and the constants \<^verbatim>\<open>sourcev1.GroupVersion\<close> and
  \<^verbatim>\<open>sourcev1.GitRepositoryKind\<close>.
\<close>

record 'k deps =
  KubeClient :: "string \<Rightarrow> string \<Rightarrow> error + 'k Client"
  resourceToString :: "bytes \<Rightarrow> string"
  yaml_Marshal_GitRepository :: "GitRepository \<Rightarrow> error + bytes"
  yaml_Marshal_Secret :: "Secret \<Rightarrow> error + bytes"
  sourcev1_GroupVersion :: GroupVersion
  sourcev1_GitRepositoryKind :: string

text \<open>
  The package-level variables the command reads: \<^verbatim>\<open>rootArgs\<close>, \<^verbatim>\<open>exportArgs\<close> and
  \<^verbatim>\<open>exportSourceWithCred\<close>, set from the command line before the command runs.
\<close>

record rootFlags =
  kubeconfig :: string
  kubecontext :: string
  namespace :: string
  timeout :: Duration

record exportFlags =
  all :: bool

record globals =
  rootArgs :: rootFlags
  exportArgs :: exportFlags
  exportSourceWithCred :: bool

text \<open>
  An effect appends its event to the trace. \<^verbatim>\<open>fmt.Println\<close> is recorded with the
  string it is given, and \<^verbatim>\<open>logger.Failuref\<close>, which this file does not define, with
  the message that its format and arguments make. A call to the API client is recorded
  with its context and arguments, and moves the cluster to the state the client returns.
\<close>

definition emit :: "event \<Rightarrow> 'k world \<Rightarrow> 'k world" where
  "emit ev w = w\<lparr>trace := trace w @ [ev]\<rparr>"

definition Println :: "string \<Rightarrow> 'k world \<Rightarrow> 'k world" where
  "Println s w = emit (Printed s) w"

definition Failuref :: "string \<Rightarrow> 'k world \<Rightarrow> 'k world" where
  "Failuref s w = emit (LoggedFailure s) w"

definition List_call ::
  "'k Client \<Rightarrow> context \<Rightarrow> string \<Rightarrow> 'k world \<Rightarrow> (error + GitRepository list) \<times> 'k world" where
  "List_call kubeClient ctx ns w =
     (case client_List kubeClient (cluster w) ctx ns of
        (r, k) \<Rightarrow> (r, \<lparr>cluster = k, trace = trace w @ [CallList ctx ns]\<rparr>))"

definition Get_GitRepository ::
  "'k Client \<Rightarrow> context \<Rightarrow> NamespacedName \<Rightarrow> 'k world \<Rightarrow> (error + GitRepository) \<times> 'k world" where
  "Get_GitRepository kubeClient ctx key w =
     (case client_Get_GitRepository kubeClient (cluster w) ctx key of
        (r, k) \<Rightarrow> (r, \<lparr>cluster = k, trace = trace w @ [CallGetGitRepository ctx key]\<rparr>))"

definition Get_Secret ::
  "'k Client \<Rightarrow> context \<Rightarrow> NamespacedName \<Rightarrow> 'k world \<Rightarrow> (error + Secret) \<times> 'k world" where
  "Get_Secret kubeClient ctx key w =
     (case client_Get_Secret kubeClient (cluster w) ctx key of
        (r, k) \<Rightarrow> (r, \<lparr>cluster = k, trace = trace w @ [CallGetSecret ctx key]\<rparr>))"

subsection \<open>exportGit\<close>

text \<open>
  The composite literal \<^verbatim>\<open>export\<close> of \<^verbatim>\<open>exportGit\<close> (lines 108 to 121): the fields it
  names, every other field at its zero value.
\<close>

definition exportGit_export :: "'k deps \<Rightarrow> GitRepository \<Rightarrow> GitRepository" where
  "exportGit_export d source =
     (let gvk = WithKind (sourcev1_GroupVersion d) (sourcev1_GitRepositoryKind d) in
      \<lparr>TypeMeta = \<lparr>Kind = gvk_Kind gvk, APIVersion = gv_String (gvk_GroupVersion gvk)\<rparr>,
       ObjectMeta = ObjectMeta_zero
         \<lparr>Name := Name (ObjectMeta source),
          Namespace := Namespace (ObjectMeta source),
          Labels := Labels (ObjectMeta source),
          Annotations := Annotations (ObjectMeta source)\<rparr>,
       Spec = Spec source,
       Status = GitRepositoryStatus_zero\<rparr>)"

definition exportGit :: "'k deps \<Rightarrow> GitRepository \<Rightarrow> 'k world \<Rightarrow> error option \<times> 'k world" where
  "exportGit d source w =
     (case yaml_Marshal_GitRepository d (exportGit_export d source) of
        Inl err \<Rightarrow> (Some err, w)
      | Inr data \<Rightarrow> (None, Println (resourceToString d data) (Println ''---'' w)))"

subsection \<open>exportGitCredentials\<close>

text \<open>The composite literal \<^verbatim>\<open>exported\<close> of \<^verbatim>\<open>exportGitCredentials\<close> (lines 145 to 156).\<close>

definition exportGitCredentials_exported :: "NamespacedName \<Rightarrow> Secret \<Rightarrow> Secret" where
  "exportGitCredentials_exported namespacedName cred =
     \<lparr>secret_TypeMeta = \<lparr>Kind = ''Secret'', APIVersion = ''v1''\<rparr>,
      secret_ObjectMeta = ObjectMeta_zero
        \<lparr>Name := nn_Name namespacedName,
         Namespace := nn_Namespace namespacedName\<rparr>,
      Immutable = None,
      Data = Data cred,
      StringData = None,
      Type = Type cred\<rparr>"

definition exportGitCredentials ::
  "'k deps \<Rightarrow> context \<Rightarrow> 'k Client \<Rightarrow> GitRepository \<Rightarrow> 'k world \<Rightarrow> error option \<times> 'k world" where
  "exportGitCredentials d ctx kubeClient source w =
     (case SecretRef (Spec source) of
        None \<Rightarrow> (None, w)
      | Some secretRef \<Rightarrow>
          (let namespacedName =
                 \<lparr>nn_Namespace = Namespace (ObjectMeta source), nn_Name = ref_Name secretRef\<rparr>
           in case Get_Secret kubeClient ctx namespacedName w of
                (Inl err, w1) \<Rightarrow>
                  (Some (ErrorfW (''failed to retrieve secret '' @ nn_Name namespacedName
                                    @ '', error: '' @ Error err) err), w1)
              | (Inr cred, w1) \<Rightarrow>
                  (case yaml_Marshal_Secret d (exportGitCredentials_exported namespacedName cred) of
                     Inl err \<Rightarrow> (Some err, w1)
                   | Inr data \<Rightarrow>
                       (None, Println (resourceToString d data) (Println ''---'' w1)))))"

subsection \<open>exportSourceGitCmdRun\<close>

text \<open>
  The loop over \<^verbatim>\<open>list.Items\<close> (lines 76 to 85): it returns at the first error, and
  falls through to the \<^verbatim>\<open>return nil\<close> of line 104 when the items are exhausted.
\<close>

fun exportSourceGitCmdRun_loop ::
  "'k deps \<Rightarrow> globals \<Rightarrow> context \<Rightarrow> 'k Client \<Rightarrow> GitRepository list \<Rightarrow> 'k world
     \<Rightarrow> error option \<times> 'k world" where
  "exportSourceGitCmdRun_loop d g ctx kubeClient [] w = (None, w)"
| "exportSourceGitCmdRun_loop d g ctx kubeClient (repository # items) w =
     (case exportGit d repository w of
        (Some err, w1) \<Rightarrow> (Some err, w1)
      | (None, w1) \<Rightarrow>
          (if exportSourceWithCred g then
             (case exportGitCredentials d ctx kubeClient repository w1 of
                (Some err, w2) \<Rightarrow> (Some err, w2)
              | (None, w2) \<Rightarrow> exportSourceGitCmdRun_loop d g ctx kubeClient items w2)
           else exportSourceGitCmdRun_loop d g ctx kubeClient items w1))"

text \<open>
  The command from line 59 on, that is after the context is made and \<^verbatim>\<open>cancel\<close> is
  deferred. In the branch for one name the guard of line 52 has made sure that
  \<^verbatim>\<open>args[0]\<close> exists.
\<close>

definition exportSourceGitCmdRun_body ::
  "'k deps \<Rightarrow> globals \<Rightarrow> context \<Rightarrow> string list \<Rightarrow> 'k world \<Rightarrow> error option \<times> 'k world" where
  "exportSourceGitCmdRun_body d g ctx args w =
     (let w0 = emit (NewKubeClient (kubeconfig (rootArgs g)) (kubecontext (rootArgs g))) w in
      case KubeClient d (kubeconfig (rootArgs g)) (kubecontext (rootArgs g)) of
        Inl err \<Rightarrow> (Some err, w0)
      | Inr kubeClient \<Rightarrow>
          (if all (exportArgs g) then
             (case List_call kubeClient ctx (namespace (rootArgs g)) w0 of
                (Inl err, w1) \<Rightarrow> (Some err, w1)
              | (Inr items, w1) \<Rightarrow>
                  (if length items = 0 then
                     (None, Failuref (''no source found in '' @ namespace (rootArgs g)
                                        @ '' namespace'') w1)
                   else exportSourceGitCmdRun_loop d g ctx kubeClient items w1))
           else
             (let name = args ! 0;
                  namespacedName = \<lparr>nn_Namespace = namespace (rootArgs g), nn_Name = name\<rparr>
              in case Get_GitRepository kubeClient ctx namespacedName w0 of
                   (Inl err, w1) \<Rightarrow> (Some err, w1)
                 | (Inr repository, w1) \<Rightarrow>
                     (case exportGit d repository w1 of
                        (Some err, w2) \<Rightarrow> (Some err, w2)
                      | (None, w2) \<Rightarrow>
                          (if exportSourceWithCred g then
                             exportGitCredentials d ctx kubeClient repository w2
                           else (None, w2))))))"

text \<open>
  The command: the check of the arguments, the context with the timeout of the root
  flags, the body, and the deferred \<^verbatim>\<open>cancel()\<close> when the function returns.
\<close>

definition exportSourceGitCmdRun ::
  "'k deps \<Rightarrow> globals \<Rightarrow> string list \<Rightarrow> 'k world \<Rightarrow> error option \<times> 'k world" where
  "exportSourceGitCmdRun d g args w =
     (if \<not> all (exportArgs g) \<and> length args < 1 then (Some (Errorf ''name is required''), w)
      else
        (let ctx = WithTimeout Background (timeout (rootArgs g)) in
         case exportSourceGitCmdRun_body d g ctx args w of
           (err, w') \<Rightarrow> (err, emit Cancelled w')))"

subsection \<open>Reading a trace\<close>

text \<open>
  The calls to the API client among the events: the two calls that read GitRepository
  objects, and the call that reads a Secret. \<open>call_context\<close> is the context a call is
  made under.
\<close>

fun is_source_call :: "event \<Rightarrow> bool" where
  "is_source_call (CallList ctx ns) = True"
| "is_source_call (CallGetGitRepository ctx key) = True"
| "is_source_call ev = False"

fun is_secret_call :: "event \<Rightarrow> bool" where
  "is_secret_call (CallGetSecret ctx key) = True"
| "is_secret_call ev = False"

definition is_api_call :: "event \<Rightarrow> bool" where
  "is_api_call ev = (is_source_call ev \<or> is_secret_call ev)"

fun call_context :: "event \<Rightarrow> context option" where
  "call_context (CallList ctx ns) = Some ctx"
| "call_context (CallGetGitRepository ctx key) = Some ctx"
| "call_context (CallGetSecret ctx key) = Some ctx"
| "call_context ev = None"

fun is_output :: "event \<Rightarrow> bool" where
  "is_output (Printed s) = True"
| "is_output ev = False"

text \<open>
  The events that may follow the first call of an invocation: printed lines, the logged
  failure, and, when credentials are exported, Gets of Secrets under the given context.
\<close>

fun tail_event :: "bool \<Rightarrow> context \<Rightarrow> event \<Rightarrow> bool" where
  "tail_event wc ctx (Printed s) = True"
| "tail_event wc ctx (LoggedFailure s) = True"
| "tail_event wc ctx (CallGetSecret c key) = (wc \<and> c = ctx)"
| "tail_event wc ctx ev = False"

definition has_SecretRef :: "GitRepository \<Rightarrow> bool" where
  "has_SecretRef r = (SecretRef (Spec r) \<noteq> None)"

text \<open>
  The Gets of Secrets that a list of repositories asks for, in the order of the list: one
  for each repository with a \<open>SecretRef\<close>, for the Secret of that name in the namespace
  of the repository.
\<close>

fun secret_calls_for :: "context \<Rightarrow> GitRepository list \<Rightarrow> event list" where
  "secret_calls_for ctx [] = []"
| "secret_calls_for ctx (r # rs) =
     (case SecretRef (Spec r) of
        None \<Rightarrow> secret_calls_for ctx rs
      | Some secretRef \<Rightarrow>
          CallGetSecret ctx
            \<lparr>nn_Namespace = Namespace (ObjectMeta r), nn_Name = ref_Name secretRef\<rparr>
          # secret_calls_for ctx rs)"

text \<open>
  The repositories that the first call of an invocation reads from the cluster in state
  \<open>k\<close>: the items of the list in \<^verbatim>\<open>--all\<close> mode, the named repository otherwise, and
  none when that call fails.
\<close>

definition sources_read ::
  "'k Client \<Rightarrow> globals \<Rightarrow> context \<Rightarrow> string list \<Rightarrow> 'k \<Rightarrow> GitRepository list" where
  "sources_read kubeClient g ctx args k =
     (if all (exportArgs g) then
        (case fst (client_List kubeClient k ctx (namespace (rootArgs g))) of
           Inl err \<Rightarrow> []
         | Inr items \<Rightarrow> items)
      else
        (case fst (client_Get_GitRepository kubeClient k ctx
                     \<lparr>nn_Namespace = namespace (rootArgs g), nn_Name = args ! 0\<rparr>) of
           Inl err \<Rightarrow> []
         | Inr repository \<Rightarrow> [repository]))"

subsection \<open>A small cluster to run the command on\<close>

text \<open>
  A cluster that holds a list of GitRepository objects and a list of Secrets, counts the
  requests it has served, and can be unreachable. Its client lists the repositories of
  a namespace and finds an object by namespace and name.
\<close>

record cluster_state =
  repositories :: "GitRepository list"
  secrets :: "Secret list"
  reachable :: bool
  served :: nat

definition example_client :: "cluster_state Client" where
  "example_client =
     \<lparr>client_List = (\<lambda>k ctx ns.
        (if reachable k
         then Inr (filter (\<lambda>r. Namespace (ObjectMeta r) = ns) (repositories k))
         else Inl (External ''timeout''),
         k\<lparr>served := Suc (served k)\<rparr>)),
      client_Get_GitRepository = (\<lambda>k ctx key.
        (if reachable k
         then (case find (\<lambda>r. Namespace (ObjectMeta r) = nn_Namespace key
                                  \<and> Name (ObjectMeta r) = nn_Name key) (repositories k) of
                 None \<Rightarrow> Inl (External ''not found'')
               | Some r \<Rightarrow> Inr r)
         else Inl (External ''timeout''),
         k\<lparr>served := Suc (served k)\<rparr>)),
      client_Get_Secret = (\<lambda>k ctx key.
        (if reachable k
         then (case find (\<lambda>s. Namespace (secret_ObjectMeta s) = nn_Namespace key
                                  \<and> Name (secret_ObjectMeta s) = nn_Name key) (secrets k) of
                 None \<Rightarrow> Inl (External ''not found'')
               | Some s \<Rightarrow> Inr s)
         else Inl (External ''timeout''),
         k\<lparr>served := Suc (served k)\<rparr>))\<rparr>"

definition example_deps :: "cluster_state deps" where
  "example_deps =
     \<lparr>KubeClient = (\<lambda>kubeconfig kubecontext. Inr example_client),
      resourceToString = (\<lambda>data. data),
      yaml_Marshal_GitRepository =
        (\<lambda>r. Inr (''kind: '' @ Kind (TypeMeta r) @ '', name: '' @ Name (ObjectMeta r))),
      yaml_Marshal_Secret =
        (\<lambda>s. Inr (''kind: '' @ Kind (secret_TypeMeta s) @ '', name: '' @ Name (secret_ObjectMeta s))),
      sourcev1_GroupVersion = \<lparr>gv_Group = ''source.toolkit.fluxcd.io'', gv_Version = ''v1beta1''\<rparr>,
      sourcev1_GitRepositoryKind = ''GitRepository''\<rparr>"

definition example_globals :: "bool \<Rightarrow> bool \<Rightarrow> globals" where
  "example_globals a wc =
     \<lparr>rootArgs = \<lparr>kubeconfig = ''config'', kubecontext = [], namespace = ''flux-system'',
                  timeout = 300000000000\<rparr>,
      exportArgs = \<lparr>all = a\<rparr>,
      exportSourceWithCred = wc\<rparr>"

definition example_ctx :: "context" where
  "example_ctx = WithTimeout Background 300000000000"

definition example_spec :: "LocalObjectReference option \<Rightarrow> GitRepositorySpec" where
  "example_spec r =
     \<lparr>URL = ''ssh://git@example.com/podinfo'', SecretRef = r, Interval = 60000000000,
      Timeout = None, Reference = Some \<lparr>Branch = ''main'', Tag = [], SemVer = [], Commit = []\<rparr>,
      Verification = None, Ignore = None, Suspend = False, GitImplementation = []\<rparr>"

definition private_repository :: GitRepository where
  "private_repository =
     \<lparr>TypeMeta = \<lparr>Kind = ''GitRepository'', APIVersion = ''source.toolkit.fluxcd.io/v1beta1''\<rparr>,
      ObjectMeta = ObjectMeta_zero
        \<lparr>Name := ''podinfo'', Namespace := ''flux-system'', UID := ''1f6a'',
         ResourceVersion := ''4711'', Generation := 2,
         Labels := Some [''app'' \<mapsto> ''podinfo''],
         Annotations := Some [''owner'' \<mapsto> ''team-a'']\<rparr>,
      Spec = example_spec (Some \<lparr>ref_Name = ''podinfo-auth''\<rparr>),
      Status = GitRepositoryStatus_zero
        \<lparr>status_ObservedGeneration := 2, status_URL := ''http://source/podinfo.tar.gz''\<rparr>\<rparr>"

definition public_repository :: GitRepository where
  "public_repository =
     \<lparr>TypeMeta = \<lparr>Kind = ''GitRepository'', APIVersion = ''source.toolkit.fluxcd.io/v1beta1''\<rparr>,
      ObjectMeta = ObjectMeta_zero
        \<lparr>Name := ''public'', Namespace := ''flux-system'', UID := ''2e7b'',
         ResourceVersion := ''4712'', Generation := 1\<rparr>,
      Spec = example_spec None,
      Status = GitRepositoryStatus_zero\<rparr>"

definition podinfo_auth :: Secret where
  "podinfo_auth =
     \<lparr>secret_TypeMeta = \<lparr>Kind = ''Secret'', APIVersion = ''v1''\<rparr>,
      secret_ObjectMeta = ObjectMeta_zero
        \<lparr>Name := ''podinfo-auth'', Namespace := ''flux-system'', UID := ''3c9d'',
         ResourceVersion := ''4713'',
         Labels := Some [''owner'' \<mapsto> ''team-a''],
         Annotations := Some [''rotated'' \<mapsto> ''2020-11-02'']\<rparr>,
      Immutable = None,
      Data = Some [''identity'' \<mapsto> ''key'', ''known_hosts'' \<mapsto> ''hosts''],
      StringData = None,
      Type = ''Opaque''\<rparr>"

definition example_cluster :: "GitRepository list \<Rightarrow> Secret list \<Rightarrow> bool \<Rightarrow> cluster_state world" where
  "example_cluster rs ss up =
     \<lparr>cluster = \<lparr>repositories = rs, secrets = ss, reachable = up, served = 0\<rparr>, trace = []\<rparr>"

section \<open>Properties\<close>

subsection \<open>Evaluating the examples\<close>

lemmas example_defs =
  example_client_def example_deps_def example_globals_def example_ctx_def example_spec_def
  private_repository_def public_repository_def podinfo_auth_def example_cluster_def
  ObjectMeta_zero_def GitRepositoryStatus_zero_def Time_zero_def

lemmas run_defs =
  exportSourceGitCmdRun_def exportSourceGitCmdRun_body_def exportGit_def
  exportGitCredentials_def exportGit_export_def exportGitCredentials_exported_def
  List_call_def Get_GitRepository_def Get_Secret_def Println_def Failuref_def emit_def
  WithKind_def gvk_GroupVersion_def gv_String_def Let_def

subsection \<open>The exported GitRepository\<close>

text \<open>
  C1. For every GitRepository given to \<open>exportGit\<close>, the document that is marshalled
  and printed has the name, the namespace, the labels, the annotations and the spec of
  the input, its TypeMeta is the kind GitRepository with the group and version of the
  source API, and every other field (the status, and the rest of ObjectMeta, such as
  the resource version and the UID) has its zero value. \<open>exportGit\<close> prints the
  separator and the marshalled document, or returns the encoder's error and prints
  nothing.
\<close>

theorem exportGit_envelope:
  "Name (ObjectMeta (exportGit_export d source)) = Name (ObjectMeta source)
   \<and> Namespace (ObjectMeta (exportGit_export d source)) = Namespace (ObjectMeta source)
   \<and> Labels (ObjectMeta (exportGit_export d source)) = Labels (ObjectMeta source)
   \<and> Annotations (ObjectMeta (exportGit_export d source)) = Annotations (ObjectMeta source)
   \<and> Spec (exportGit_export d source) = Spec source
   \<and> TypeMeta (exportGit_export d source) =
       \<lparr>Kind = sourcev1_GitRepositoryKind d,
        APIVersion = gv_String (sourcev1_GroupVersion d)\<rparr>
   \<and> Status (exportGit_export d source) = GitRepositoryStatus_zero
   \<and> ResourceVersion (ObjectMeta (exportGit_export d source)) = []
   \<and> UID (ObjectMeta (exportGit_export d source)) = []
   \<and> ObjectMeta (exportGit_export d source) =
       ObjectMeta_zero
         \<lparr>Name := Name (ObjectMeta source), Namespace := Namespace (ObjectMeta source),
          Labels := Labels (ObjectMeta source),
          Annotations := Annotations (ObjectMeta source)\<rparr>
   \<and> exportGit d source w =
       (case yaml_Marshal_GitRepository d (exportGit_export d source) of
          Inl err \<Rightarrow> (Some err, w)
        | Inr data \<Rightarrow>
            (None, w\<lparr>trace := trace w @ [Printed ''---'', Printed (resourceToString d data)]\<rparr>))"
  by (simp add: exportGit_export_def exportGit_def Println_def emit_def ObjectMeta_zero_def
      WithKind_def gvk_GroupVersion_def gv_String_def Let_def split: sum.splits)

theorem exportGit_envelope_witness:
  "exportGit_export example_deps private_repository =
     \<lparr>TypeMeta = \<lparr>Kind = ''GitRepository'', APIVersion = ''source.toolkit.fluxcd.io/v1beta1''\<rparr>,
      ObjectMeta = ObjectMeta_zero
        \<lparr>Name := ''podinfo'', Namespace := ''flux-system'',
         Labels := Some [''app'' \<mapsto> ''podinfo''],
         Annotations := Some [''owner'' \<mapsto> ''team-a'']\<rparr>,
      Spec = example_spec (Some \<lparr>ref_Name = ''podinfo-auth''\<rparr>),
      Status = GitRepositoryStatus_zero\<rparr>
   \<and> ResourceVersion (ObjectMeta private_repository) = ''4711''
   \<and> ResourceVersion (ObjectMeta (exportGit_export example_deps private_repository)) = []
   \<and> trace (snd (exportGit example_deps private_repository
                    (example_cluster [private_repository] [podinfo_auth] True))) =
       [Printed ''---'', Printed ''kind: GitRepository, name: podinfo'']"
  using exportGit_envelope [where d = example_deps and source = private_repository
      and w = "example_cluster [private_repository] [podinfo_auth] True"]
  by (simp add: example_defs gv_String_def)

subsection \<open>The check of the arguments\<close>

text \<open>
  C8. When \<^verbatim>\<open>--all\<close> is off and no name is given, the command returns the error
  "name is required" and leaves the world as it was: no client is made, no API-client
  call is issued, nothing is printed or logged.
\<close>

theorem name_is_required:
  assumes "\<not> all (exportArgs g)" and "args = []"
  shows "exportSourceGitCmdRun d g args w = (Some (Errorf ''name is required''), w)"
  using assms by (simp add: exportSourceGitCmdRun_def)

theorem name_is_required_witness:
  "exportSourceGitCmdRun example_deps (example_globals False True) []
     (example_cluster [private_repository] [podinfo_auth] True) =
   (Some (Errorf ''name is required''),
    example_cluster [private_repository] [podinfo_auth] True)
   \<and> trace (example_cluster [private_repository] [podinfo_auth] True) = []"
  using name_is_required [where g = "example_globals False True" and args = "[]"
      and d = example_deps and w = "example_cluster [private_repository] [podinfo_auth] True"]
  by (simp add: example_globals_def example_cluster_def)

subsection \<open>An empty list\<close>

text \<open>
  C10. In \<^verbatim>\<open>--all\<close> mode, when the List call succeeds with no items, the command logs
  the failure message that names the namespace and returns \<^verbatim>\<open>nil\<close>; it prints no
  document and makes no further call.
\<close>

theorem no_source_found:
  assumes "all (exportArgs g)"
    and "KubeClient d (kubeconfig (rootArgs g)) (kubecontext (rootArgs g)) = Inr kubeClient"
    and "client_List kubeClient (cluster w) (WithTimeout Background (timeout (rootArgs g)))
           (namespace (rootArgs g)) = (Inr [], k)"
  shows "exportSourceGitCmdRun d g args w =
           (None,
            \<lparr>cluster = k,
             trace = trace w @
               [NewKubeClient (kubeconfig (rootArgs g)) (kubecontext (rootArgs g)),
                CallList (WithTimeout Background (timeout (rootArgs g))) (namespace (rootArgs g)),
                LoggedFailure (''no source found in '' @ namespace (rootArgs g) @ '' namespace''),
                Cancelled]\<rparr>)"
  using assms
  by (simp add: exportSourceGitCmdRun_def exportSourceGitCmdRun_body_def List_call_def
      Failuref_def emit_def Let_def)

theorem no_source_found_witness:
  "exportSourceGitCmdRun example_deps (example_globals True True) []
     (example_cluster [] [podinfo_auth] True) =
   (None,
    \<lparr>cluster = \<lparr>repositories = [], secrets = [podinfo_auth], reachable = True, served = 1\<rparr>,
     trace = [NewKubeClient ''config'' [], CallList example_ctx ''flux-system'',
              LoggedFailure ''no source found in flux-system namespace'', Cancelled]\<rparr>)"
  using no_source_found [where g = "example_globals True True" and d = example_deps
      and kubeClient = example_client and w = "example_cluster [] [podinfo_auth] True"
      and k = "\<lparr>repositories = [], secrets = [podinfo_auth], reachable = True, served = 1\<rparr>"
      and args = "[]"]
  by (simp add: example_globals_def example_cluster_def example_deps_def example_client_def
      example_ctx_def)

subsection \<open>Exporting with credentials\<close>

text \<open>
  C9. For a GitRepository whose \<open>SecretRef\<close> is \<^verbatim>\<open>nil\<close>, \<open>exportGitCredentials\<close> makes
  no call, prints nothing and returns \<^verbatim>\<open>nil\<close>. So an export with credentials of such a
  repository, by name or as an item of the list, prints the GitRepository document
  alone and goes on successfully.
\<close>

theorem exportGitCredentials_no_secretRef:
  assumes "SecretRef (Spec source) = None"
  shows "exportGitCredentials d ctx kubeClient source w = (None, w)
    \<and> (\<not> all (exportArgs g) \<and> args \<noteq> [] \<and> exportSourceWithCred g
       \<and> KubeClient d (kubeconfig (rootArgs g)) (kubecontext (rootArgs g)) = Inr kubeClient
       \<and> client_Get_GitRepository kubeClient (cluster w)
            (WithTimeout Background (timeout (rootArgs g)))
            \<lparr>nn_Namespace = namespace (rootArgs g), nn_Name = args ! 0\<rparr> = (Inr source, k)
       \<and> yaml_Marshal_GitRepository d (exportGit_export d source) = Inr data
       \<longrightarrow> exportSourceGitCmdRun d g args w =
             (None,
              \<lparr>cluster = k,
               trace = trace w @
                 [NewKubeClient (kubeconfig (rootArgs g)) (kubecontext (rootArgs g)),
                  CallGetGitRepository (WithTimeout Background (timeout (rootArgs g)))
                    \<lparr>nn_Namespace = namespace (rootArgs g), nn_Name = args ! 0\<rparr>,
                  Printed ''---'', Printed (resourceToString d data), Cancelled]\<rparr>))
    \<and> (exportSourceWithCred g
       \<and> yaml_Marshal_GitRepository d (exportGit_export d source) = Inr data
       \<longrightarrow> exportSourceGitCmdRun_loop d g ctx kubeClient (source # items) w =
             exportSourceGitCmdRun_loop d g ctx kubeClient items
               (w\<lparr>trace := trace w @ [Printed ''---'', Printed (resourceToString d data)]\<rparr>))"
  using assms
  by (simp add: exportSourceGitCmdRun_def exportSourceGitCmdRun_body_def exportGit_def
      exportGitCredentials_def Get_GitRepository_def Println_def emit_def Let_def)

theorem exportGitCredentials_no_secretRef_witness:
  "exportGitCredentials example_deps example_ctx example_client public_repository
     (example_cluster [public_repository] [] True) =
   (None, example_cluster [public_repository] [] True)
   \<and> exportSourceGitCmdRun example_deps (example_globals False True) [''public'']
       (example_cluster [public_repository] [] True) =
     (None,
      \<lparr>cluster = \<lparr>repositories = [public_repository], secrets = [], reachable = True,
                  served = 1\<rparr>,
       trace = [NewKubeClient ''config'' [],
                CallGetGitRepository example_ctx
                  \<lparr>nn_Namespace = ''flux-system'', nn_Name = ''public''\<rparr>,
                Printed ''---'', Printed ''kind: GitRepository, name: public'', Cancelled]\<rparr>)
   \<and> exportSourceGitCmdRun_loop example_deps (example_globals True True) example_ctx
       example_client [public_repository] (example_cluster [public_repository] [] True) =
     (None,
      \<lparr>cluster = \<lparr>repositories = [public_repository], secrets = [], reachable = True,
                  served = 0\<rparr>,
       trace = [Printed ''---'', Printed ''kind: GitRepository, name: public'']\<rparr>)"
  using exportGitCredentials_no_secretRef [where source = public_repository
      and d = example_deps and ctx = example_ctx and kubeClient = example_client
      and w = "example_cluster [public_repository] [] True"
      and g = "example_globals False True" and args = "[''public'']"
      and k = "\<lparr>repositories = [public_repository], secrets = [], reachable = True, served = 1\<rparr>"
      and data = "''kind: GitRepository, name: public''" and items = "[]"]
    exportGitCredentials_no_secretRef [where source = public_repository
      and d = example_deps and ctx = example_ctx and kubeClient = example_client
      and w = "example_cluster [public_repository] [] True"
      and g = "example_globals True True" and args = "[]"
      and k = "\<lparr>repositories = [public_repository], secrets = [], reachable = True, served = 1\<rparr>"
      and data = "''kind: GitRepository, name: public''" and items = "[]"]
  by (simp add: example_defs exportGit_export_def WithKind_def gvk_GroupVersion_def
      gv_String_def)

subsection \<open>The loop over the listed repositories\<close>

text \<open>The loop over a list in two parts runs the second part only if the first returns no error.\<close>

lemma loop_append:
  "exportSourceGitCmdRun_loop d g ctx kubeClient (xs @ ys) w =
     (case exportSourceGitCmdRun_loop d g ctx kubeClient xs w of
        (Some err, w1) \<Rightarrow> (Some err, w1)
      | (None, w1) \<Rightarrow> exportSourceGitCmdRun_loop d g ctx kubeClient ys w1)"
  by (induction xs arbitrary: w) (auto split: prod.splits option.splits)

subsection \<open>A repository and its Secret\<close>



text \<open>
  C3. The exported Secret is said to carry the labels and annotations of the Secret that
  was read, as the exported GitRepository carries those of its source. The composite
  literal of \<open>exportGitCredentials\<close> names only the name, the namespace, the data and
  the type: for a Secret with labels and annotations, the exported Secret has none.
\<close>

theorem exported_secret_without_labels:
  "exportGitCredentials_exported
     \<lparr>nn_Namespace = ''flux-system'', nn_Name = ''podinfo-auth''\<rparr> podinfo_auth =
     \<lparr>secret_TypeMeta = \<lparr>Kind = ''Secret'', APIVersion = ''v1''\<rparr>,
      secret_ObjectMeta = ObjectMeta_zero
        \<lparr>Name := ''podinfo-auth'', Namespace := ''flux-system''\<rparr>,
      Immutable = None,
      Data = Some [''identity'' \<mapsto> ''key'', ''known_hosts'' \<mapsto> ''hosts''],
      StringData = None,
      Type = ''Opaque''\<rparr>
   \<and> Labels (secret_ObjectMeta podinfo_auth) = Some [''owner'' \<mapsto> ''team-a'']
   \<and> Labels (secret_ObjectMeta (exportGitCredentials_exported
         \<lparr>nn_Namespace = ''flux-system'', nn_Name = ''podinfo-auth''\<rparr> podinfo_auth)) = None
   \<and> Annotations (secret_ObjectMeta podinfo_auth) = Some [''rotated'' \<mapsto> ''2020-11-02'']
   \<and> Annotations (secret_ObjectMeta (exportGitCredentials_exported
         \<lparr>nn_Namespace = ''flux-system'', nn_Name = ''podinfo-auth''\<rparr> podinfo_auth)) = None"
  by (simp add: exportGitCredentials_exported_def podinfo_auth_def ObjectMeta_zero_def)

subsection \<open>The first error ends the loop\<close>

text \<open>
  C5. In \<^verbatim>\<open>--all\<close> mode, when the items before a position are exported without error
  and the export of the item at that position, or the export of its Secret, returns an
  error, the loop returns that error in the world as it is at that moment: whatever
  items follow, none of them is exported and no Secret of theirs is read. The command
  returns the same error after the deferred cancel.
\<close>

theorem loop_returns_first_error:
  assumes "exportSourceGitCmdRun_loop d g ctx kubeClient pre w = (None, w1)"
    and "exportGit d repository w1 = (Some err, w2)
         \<or> (\<exists>w'. exportGit d repository w1 = (None, w') \<and> exportSourceWithCred g
                \<and> exportGitCredentials d ctx kubeClient repository w' = (Some err, w2))"
  shows "exportSourceGitCmdRun_loop d g ctx kubeClient (pre @ repository # post) w = (Some err, w2)
    \<and> exportSourceGitCmdRun_loop d g ctx kubeClient (pre @ [repository]) w = (Some err, w2)
    \<and> (all (exportArgs g) \<and> ctx = WithTimeout Background (timeout (rootArgs g))
       \<and> KubeClient d (kubeconfig (rootArgs g)) (kubecontext (rootArgs g)) = Inr kubeClient
       \<and> client_List kubeClient (cluster w0) ctx (namespace (rootArgs g)) =
            (Inr (pre @ repository # post), cluster w)
       \<and> trace w = trace w0 @
            [NewKubeClient (kubeconfig (rootArgs g)) (kubecontext (rootArgs g)),
             CallList ctx (namespace (rootArgs g))]
       \<longrightarrow> exportSourceGitCmdRun d g args w0 = (Some err, w2\<lparr>trace := trace w2 @ [Cancelled]\<rparr>))"
proof -
  have head: "exportSourceGitCmdRun_loop d g ctx kubeClient (repository # items) w1 = (Some err, w2)"
    for items
    using assms(2) by auto
  have loop: "exportSourceGitCmdRun_loop d g ctx kubeClient (pre @ repository # items) w = (Some err, w2)"
    for items
    by (simp add: loop_append assms(1) head del: exportSourceGitCmdRun_loop.simps)
  have cmd: "exportSourceGitCmdRun d g args w0 = (Some err, w2\<lparr>trace := trace w2 @ [Cancelled]\<rparr>)"
    if "all (exportArgs g)" and "ctx = WithTimeout Background (timeout (rootArgs g))"
      and "KubeClient d (kubeconfig (rootArgs g)) (kubecontext (rootArgs g)) = Inr kubeClient"
      and "client_List kubeClient (cluster w0) ctx (namespace (rootArgs g)) =
            (Inr (pre @ repository # post), cluster w)"
      and "trace w = trace w0 @
            [NewKubeClient (kubeconfig (rootArgs g)) (kubecontext (rootArgs g)),
             CallList ctx (namespace (rootArgs g))]"
  proof -
    have w: "\<lparr>cluster = cluster w,
              trace = trace w0 @
                [NewKubeClient (kubeconfig (rootArgs g)) (kubecontext (rootArgs g)),
                 CallList (WithTimeout Background (timeout (rootArgs g)))
                   (namespace (rootArgs g))]\<rparr> = w"
      using that(2,5) by simp
    show ?thesis
      using that(1-4) loop [of post]
      by (simp add: exportSourceGitCmdRun_def exportSourceGitCmdRun_body_def List_call_def
          emit_def Let_def w)
  qed
  show ?thesis
    using loop [of post] loop [of "[]"] cmd by blast
qed


theorem loop_returns_first_error_witness:
  "exportSourceGitCmdRun_loop example_deps (example_globals True True) example_ctx example_client
     [public_repository, private_repository, public_repository]
     \<lparr>cluster = \<lparr>repositories = [public_repository, private_repository, public_repository],
                 secrets = [], reachable = True, served = 1\<rparr>,
      trace = [NewKubeClient ''config'' [], CallList example_ctx ''flux-system'']\<rparr> =
   (Some (ErrorfW ''failed to retrieve secret podinfo-auth, error: not found''
            (External ''not found'')),
    \<lparr>cluster = \<lparr>repositories = [public_repository, private_repository, public_repository],
                secrets = [], reachable = True, served = 2\<rparr>,
     trace = [NewKubeClient ''config'' [], CallList example_ctx ''flux-system'',
              Printed ''---'', Printed ''kind: GitRepository, name: public'',
              Printed ''---'', Printed ''kind: GitRepository, name: podinfo'',
              CallGetSecret example_ctx
                \<lparr>nn_Namespace = ''flux-system'', nn_Name = ''podinfo-auth''\<rparr>]\<rparr>)
   \<and> exportSourceGitCmdRun example_deps (example_globals True True) []
       (example_cluster [public_repository, private_repository, public_repository] [] True) =
     (Some (ErrorfW ''failed to retrieve secret podinfo-auth, error: not found''
              (External ''not found'')),
      \<lparr>cluster = \<lparr>repositories = [public_repository, private_repository, public_repository],
                  secrets = [], reachable = True, served = 2\<rparr>,
       trace = [NewKubeClient ''config'' [], CallList example_ctx ''flux-system'',
                Printed ''---'', Printed ''kind: GitRepository, name: public'',
                Printed ''---'', Printed ''kind: GitRepository, name: podinfo'',
                CallGetSecret example_ctx
                  \<lparr>nn_Namespace = ''flux-system'', nn_Name = ''podinfo-auth''\<rparr>,
                Cancelled]\<rparr>)"
  using loop_returns_first_error [where d = example_deps and g = "example_globals True True"
      and ctx = example_ctx and kubeClient = example_client and pre = "[public_repository]"
      and repository = private_repository and post = "[public_repository]" and args = "[]"
      and err = "ErrorfW ''failed to retrieve secret podinfo-auth, error: not found''
                   (External ''not found'')"
      and ?w0.0 = "example_cluster [public_repository, private_repository, public_repository] [] True"
      and w = "\<lparr>cluster = \<lparr>repositories = [public_repository, private_repository, public_repository],
                 secrets = [], reachable = True, served = 1\<rparr>,
               trace = [NewKubeClient ''config'' [], CallList example_ctx ''flux-system'']\<rparr>"
      and ?w1.0 = "\<lparr>cluster = \<lparr>repositories = [public_repository, private_repository, public_repository],
                 secrets = [], reachable = True, served = 1\<rparr>,
               trace = [NewKubeClient ''config'' [], CallList example_ctx ''flux-system'',
                        Printed ''---'', Printed ''kind: GitRepository, name: public'']\<rparr>"
      and ?w2.0 = "\<lparr>cluster = \<lparr>repositories = [public_repository, private_repository, public_repository],
                 secrets = [], reachable = True, served = 2\<rparr>,
               trace = [NewKubeClient ''config'' [], CallList example_ctx ''flux-system'',
                        Printed ''---'', Printed ''kind: GitRepository, name: public'',
                        Printed ''---'', Printed ''kind: GitRepository, name: podinfo'',
                        CallGetSecret example_ctx
                          \<lparr>nn_Namespace = ''flux-system'', nn_Name = ''podinfo-auth''\<rparr>]\<rparr>"]
  by (simp add: example_defs run_defs)

subsection \<open>Errors of the API client\<close>

text \<open>
  C4. Every error of an API-client call is said to be returned to the user exactly as
  the client produced it. That fails for the Get of the Secret: its error comes back
  inside a new error with the message "failed to retrieve secret", as the export of a
  repository whose Secret is missing shows.
\<close>

theorem secret_error_is_wrapped:
  "client_Get_Secret example_client
     \<lparr>repositories = [private_repository], secrets = [], reachable = True, served = 1\<rparr>
     example_ctx \<lparr>nn_Namespace = ''flux-system'', nn_Name = ''podinfo-auth''\<rparr> =
     (Inl (External ''not found''),
      \<lparr>repositories = [private_repository], secrets = [], reachable = True, served = 2\<rparr>)
   \<and> fst (exportSourceGitCmdRun example_deps (example_globals False True) [''podinfo'']
            (example_cluster [private_repository] [] True)) =
       Some (ErrorfW ''failed to retrieve secret podinfo-auth, error: not found''
               (External ''not found''))
   \<and> fst (exportSourceGitCmdRun example_deps (example_globals False True) [''podinfo'']
            (example_cluster [private_repository] [] True)) \<noteq> Some (External ''not found'')
   \<and> trace (snd (exportSourceGitCmdRun example_deps (example_globals False True) [''podinfo'']
            (example_cluster [private_repository] [] True))) =
       [NewKubeClient ''config'' [],
        CallGetGitRepository example_ctx \<lparr>nn_Namespace = ''flux-system'', nn_Name = ''podinfo''\<rparr>,
        Printed ''---'', Printed ''kind: GitRepository, name: podinfo'',
        CallGetSecret example_ctx \<lparr>nn_Namespace = ''flux-system'', nn_Name = ''podinfo-auth''\<rparr>,
        Cancelled]"
  by (simp add: example_defs run_defs)

text \<open>
  C4, amended. An error of the List call or of the Get of the repository is returned
  exactly as the client produced it. An error of the Get of a Secret is returned, by
  name and from the loop alike, as a new error that wraps the client's error, with the
  message "failed to retrieve secret NAME, error: " followed by the client's message.
\<close>

theorem api_errors_returned:
  assumes "KubeClient d (kubeconfig (rootArgs g)) (kubecontext (rootArgs g)) = Inr kubeClient"
    and "ctx = WithTimeout Background (timeout (rootArgs g))"
  shows "(all (exportArgs g)
          \<and> client_List kubeClient (cluster w) ctx (namespace (rootArgs g)) = (Inl err, k)
          \<longrightarrow> fst (exportSourceGitCmdRun d g args w) = Some err)
    \<and> (\<not> all (exportArgs g) \<and> args \<noteq> []
       \<and> client_Get_GitRepository kubeClient (cluster w) ctx
            \<lparr>nn_Namespace = namespace (rootArgs g), nn_Name = args ! 0\<rparr> = (Inl err, k)
       \<longrightarrow> fst (exportSourceGitCmdRun d g args w) = Some err)
    \<and> (\<not> all (exportArgs g) \<and> args \<noteq> [] \<and> exportSourceWithCred g
       \<and> client_Get_GitRepository kubeClient (cluster w) ctx
            \<lparr>nn_Namespace = namespace (rootArgs g), nn_Name = args ! 0\<rparr> = (Inr source, k)
       \<and> yaml_Marshal_GitRepository d (exportGit_export d source) = Inr data
       \<and> SecretRef (Spec source) = Some secretRef
       \<and> client_Get_Secret kubeClient k ctx
            \<lparr>nn_Namespace = Namespace (ObjectMeta source), nn_Name = ref_Name secretRef\<rparr> =
            (Inl err, k')
       \<longrightarrow> fst (exportSourceGitCmdRun d g args w) =
             Some (ErrorfW (''failed to retrieve secret '' @ ref_Name secretRef @ '', error: ''
                              @ Error err) err))
    \<and> (exportSourceWithCred g
       \<and> yaml_Marshal_GitRepository d (exportGit_export d source) = Inr data
       \<and> SecretRef (Spec source) = Some secretRef
       \<and> client_Get_Secret kubeClient (cluster w) ctx
            \<lparr>nn_Namespace = Namespace (ObjectMeta source), nn_Name = ref_Name secretRef\<rparr> =
            (Inl err, k')
       \<longrightarrow> fst (exportSourceGitCmdRun_loop d g ctx kubeClient (source # items) w) =
             Some (ErrorfW (''failed to retrieve secret '' @ ref_Name secretRef @ '', error: ''
                              @ Error err) err))
    \<and> Unwrap (ErrorfW (''failed to retrieve secret '' @ ref_Name secretRef @ '', error: ''
                         @ Error err) err) = Some err"
  using assms
  by (auto simp add: exportSourceGitCmdRun_def exportSourceGitCmdRun_body_def exportGit_def
      exportGitCredentials_def List_call_def Get_GitRepository_def Get_Secret_def Println_def
      emit_def Let_def)

theorem api_errors_returned_witness:
  "fst (exportSourceGitCmdRun example_deps (example_globals True True) []
          (example_cluster [private_repository] [podinfo_auth] False)) =
     Some (External ''timeout'')
   \<and> fst (exportSourceGitCmdRun example_deps (example_globals False True) [''missing'']
          (example_cluster [private_repository] [podinfo_auth] True)) =
     Some (External ''not found'')
   \<and> fst (exportSourceGitCmdRun example_deps (example_globals False True) [''podinfo'']
          (example_cluster [private_repository] [] True)) =
     Some (ErrorfW ''failed to retrieve secret podinfo-auth, error: not found''
             (External ''not found''))
   \<and> fst (exportSourceGitCmdRun_loop example_deps (example_globals True True) example_ctx
          example_client [private_repository, public_repository]
          (example_cluster [private_repository, public_repository] [] True)) =
     Some (ErrorfW ''failed to retrieve secret podinfo-auth, error: not found''
             (External ''not found''))"
  using api_errors_returned [where d = example_deps and g = "example_globals True True"
      and kubeClient = example_client and ctx = example_ctx and args = "[]"
      and w = "example_cluster [private_repository] [podinfo_auth] False"
      and err = "External ''timeout''"
      and k = "\<lparr>repositories = [private_repository], secrets = [podinfo_auth],
                reachable = False, served = 1\<rparr>"]
    api_errors_returned [where d = example_deps and g = "example_globals False True"
      and kubeClient = example_client and ctx = example_ctx and args = "[''missing'']"
      and w = "example_cluster [private_repository] [podinfo_auth] True"
      and err = "External ''not found''"
      and k = "\<lparr>repositories = [private_repository], secrets = [podinfo_auth],
                reachable = True, served = 1\<rparr>"]
    api_errors_returned [where d = example_deps and g = "example_globals False True"
      and kubeClient = example_client and ctx = example_ctx and args = "[''podinfo'']"
      and w = "example_cluster [private_repository] [] True"
      and err = "External ''not found''" and source = private_repository
      and data = "''kind: GitRepository, name: podinfo''"
      and secretRef = "\<lparr>ref_Name = ''podinfo-auth''\<rparr>"
      and k = "\<lparr>repositories = [private_repository], secrets = [],
                reachable = True, served = 1\<rparr>"
      and k' = "\<lparr>repositories = [private_repository], secrets = [],
                reachable = True, served = 2\<rparr>"]
    api_errors_returned [where d = example_deps and g = "example_globals True True"
      and kubeClient = example_client and ctx = example_ctx and args = "[]"
      and w = "example_cluster [private_repository, public_repository] [] True"
      and err = "External ''not found''" and source = private_repository
      and data = "''kind: GitRepository, name: podinfo''"
      and secretRef = "\<lparr>ref_Name = ''podinfo-auth''\<rparr>"
      and items = "[public_repository]"
      and k' = "\<lparr>repositories = [private_repository, public_repository], secrets = [],
                reachable = True, served = 1\<rparr>"]
  by (simp add: example_defs exportGit_export_def WithKind_def gvk_GroupVersion_def
      gv_String_def)

subsection \<open>What an invocation adds to the trace\<close>

text \<open>
  Each function only appends to the trace. After the client is made and the first call
  is issued, everything the body appends is a printed line, the logged failure or, with
  credentials, a Get of a Secret under the context of the command.
\<close>

lemma tail_event_facts:
  assumes "list_all (tail_event wc ctx) evs"
  shows "filter is_source_call evs = []"
    and "Cancelled \<notin> set evs"
    and "\<forall>ev\<in>set evs. call_context ev = None \<or> call_context ev = Some ctx"
    and "\<not> wc \<Longrightarrow> filter is_secret_call evs = []"
proof -
  have one: "\<not> is_source_call ev \<and> ev \<noteq> Cancelled
             \<and> (call_context ev = None \<or> call_context ev = Some ctx)
             \<and> (\<not> wc \<longrightarrow> \<not> is_secret_call ev)"
    if "tail_event wc ctx ev" for ev
    using that by (cases ev) auto
  from assms one show "filter is_source_call evs = []"
    by (induction evs) auto
  from assms one show "Cancelled \<notin> set evs"
    by (induction evs) auto
  from assms one show "\<forall>ev\<in>set evs. call_context ev = None \<or> call_context ev = Some ctx"
    by (induction evs) auto
  from assms one show "\<not> wc \<Longrightarrow> filter is_secret_call evs = []"
    by (induction evs) auto
qed

lemma exportGit_events:
  assumes "exportGit d source w = (r, w')"
  shows "\<exists>evs. trace w' = trace w @ evs \<and> list_all (tail_event wc ctx) evs
           \<and> filter is_secret_call evs = []"
  using assms
  by (auto simp add: exportGit_def Println_def emit_def split: sum.splits)

lemma exportGitCredentials_events:
  assumes "exportGitCredentials d ctx kubeClient source w = (r, w')"
  shows "\<exists>evs. trace w' = trace w @ evs \<and> list_all (tail_event True ctx) evs
           \<and> length (filter is_secret_call evs) \<le> (if has_SecretRef source then 1 else 0)"
  using assms
  by (auto simp add: exportGitCredentials_def Get_Secret_def Println_def emit_def Let_def
      has_SecretRef_def split: sum.splits option.splits prod.splits)

lemma loop_events:
  assumes "exportSourceGitCmdRun_loop d g ctx kubeClient items w = (r, w')"
  shows "\<exists>evs. trace w' = trace w @ evs
           \<and> list_all (tail_event (exportSourceWithCred g) ctx) evs
           \<and> length (filter is_secret_call evs) \<le> length (filter has_SecretRef items)"
  using assms
proof (induction items arbitrary: w)
  case Nil
  then show ?case by simp
next
  case (Cons repository items)
  obtain r1 w1 where git: "exportGit d repository w = (r1, w1)"
    by (cases "exportGit d repository w")
  from exportGit_events [OF git, of "exportSourceWithCred g" ctx]
  obtain evs1 where evs1: "trace w1 = trace w @ evs1"
      "list_all (tail_event (exportSourceWithCred g) ctx) evs1"
      "filter is_secret_call evs1 = []"
    by blast
  show ?case
  proof (cases r1)
    case (Some err)
    with Cons.prems git have "w' = w1" by simp
    with evs1 show ?thesis by auto
  next
    case None
    show ?thesis
    proof (cases "exportSourceWithCred g")
      case False
      with Cons.prems git None
      have "exportSourceGitCmdRun_loop d g ctx kubeClient items w1 = (r, w')" by simp
      from Cons.IH [OF this]
      obtain evs where "trace w' = trace w1 @ evs"
          "list_all (tail_event (exportSourceWithCred g) ctx) evs"
          "length (filter is_secret_call evs) \<le> length (filter has_SecretRef items)"
        by blast
      with evs1 have "trace w' = trace w @ (evs1 @ evs)
          \<and> list_all (tail_event (exportSourceWithCred g) ctx) (evs1 @ evs)
          \<and> length (filter is_secret_call (evs1 @ evs))
              \<le> length (filter has_SecretRef (repository # items))"
        by simp
      then show ?thesis by blast
    next
      case True
      obtain r2 w2 where cred: "exportGitCredentials d ctx kubeClient repository w1 = (r2, w2)"
        by (cases "exportGitCredentials d ctx kubeClient repository w1")
      from exportGitCredentials_events [OF cred]
      obtain evs2 where evs2: "trace w2 = trace w1 @ evs2"
          "list_all (tail_event True ctx) evs2"
          "length (filter is_secret_call evs2) \<le> (if has_SecretRef repository then 1 else 0)"
        by blast
      show ?thesis
      proof (cases r2)
        case (Some err)
        with Cons.prems git None True cred have "w' = w2" by simp
        with evs1 evs2 True
        have "trace w' = trace w @ (evs1 @ evs2)
          \<and> list_all (tail_event (exportSourceWithCred g) ctx) (evs1 @ evs2)
          \<and> length (filter is_secret_call (evs1 @ evs2))
              \<le> length (filter has_SecretRef (repository # items))"
          by (auto split: if_splits)
        then show ?thesis by blast
      next
        case None': None
        with Cons.prems git None True cred
        have "exportSourceGitCmdRun_loop d g ctx kubeClient items w2 = (r, w')" by simp
        from Cons.IH [OF this]
        obtain evs where "trace w' = trace w2 @ evs"
            "list_all (tail_event (exportSourceWithCred g) ctx) evs"
            "length (filter is_secret_call evs) \<le> length (filter has_SecretRef items)"
          by blast
        with evs1 evs2 True
        have "trace w' = trace w @ (evs1 @ evs2 @ evs)
          \<and> list_all (tail_event (exportSourceWithCred g) ctx) (evs1 @ evs2 @ evs)
          \<and> length (filter is_secret_call (evs1 @ evs2 @ evs))
              \<le> length (filter has_SecretRef (repository # items))"
          by (auto split: if_splits)
        then show ?thesis by blast
      qed
    qed
  qed
qed

lemma body_events:
  assumes "exportSourceGitCmdRun_body d g ctx args w = (r, w')"
    and "KubeClient d (kubeconfig (rootArgs g)) (kubecontext (rootArgs g)) = Inr kubeClient"
  shows "\<exists>evs. trace w' = trace w @
             [NewKubeClient (kubeconfig (rootArgs g)) (kubecontext (rootArgs g)),
              if all (exportArgs g) then CallList ctx (namespace (rootArgs g))
              else CallGetGitRepository ctx
                     \<lparr>nn_Namespace = namespace (rootArgs g), nn_Name = args ! 0\<rparr>] @ evs
           \<and> list_all (tail_event (exportSourceWithCred g) ctx) evs"
proof (cases "all (exportArgs g)")
  case True
  obtain res k where ls: "client_List kubeClient (cluster w) ctx (namespace (rootArgs g)) = (res, k)"
    by (cases "client_List kubeClient (cluster w) ctx (namespace (rootArgs g))")
  show ?thesis
  proof (cases res)
    case (Inl err)
    with assms True ls show ?thesis
      by (auto simp add: exportSourceGitCmdRun_body_def List_call_def emit_def Let_def)
  next
    case (Inr items)
    show ?thesis
    proof (cases "items = []")
      case True
      with assms \<open>all (exportArgs g)\<close> ls Inr show ?thesis
        by (auto simp add: exportSourceGitCmdRun_body_def List_call_def emit_def Let_def
            Failuref_def)
    next
      case False
      with assms \<open>all (exportArgs g)\<close> ls Inr
      have "exportSourceGitCmdRun_loop d g ctx kubeClient items
              \<lparr>cluster = k,
               trace = trace w @
                 [NewKubeClient (kubeconfig (rootArgs g)) (kubecontext (rootArgs g)),
                  CallList ctx (namespace (rootArgs g))]\<rparr> = (r, w')"
        by (simp add: exportSourceGitCmdRun_body_def List_call_def emit_def Let_def)
      from loop_events [OF this] \<open>all (exportArgs g)\<close> show ?thesis
        by auto
    qed
  qed
next
  case False
  let ?key = "\<lparr>nn_Namespace = namespace (rootArgs g), nn_Name = args ! 0\<rparr>"
  let ?w1 = "\<lambda>k. \<lparr>cluster = k,
               trace = trace w @
                 [NewKubeClient (kubeconfig (rootArgs g)) (kubecontext (rootArgs g)),
                  CallGetGitRepository ctx ?key]\<rparr>"
  obtain res k where gt: "client_Get_GitRepository kubeClient (cluster w) ctx ?key = (res, k)"
    by (cases "client_Get_GitRepository kubeClient (cluster w) ctx ?key")
  show ?thesis
  proof (cases res)
    case (Inl err)
    with assms False gt show ?thesis
      by (auto simp add: exportSourceGitCmdRun_body_def Get_GitRepository_def emit_def Let_def)
  next
    case (Inr repository)
    obtain r1 w1 where git: "exportGit d repository (?w1 k) = (r1, w1)"
      by (cases "exportGit d repository (?w1 k)")
    from exportGit_events [OF git, of "exportSourceWithCred g" ctx]
    obtain evs1 where evs1: "trace w1 = trace (?w1 k) @ evs1"
        "list_all (tail_event (exportSourceWithCred g) ctx) evs1"
      by blast
    show ?thesis
    proof (cases "r1 = None \<and> exportSourceWithCred g")
      case False
      with assms \<open>\<not> all (exportArgs g)\<close> gt Inr git have "w' = w1"
        by (cases r1)
          (auto simp add: exportSourceGitCmdRun_body_def Get_GitRepository_def emit_def Let_def)
      with evs1 \<open>\<not> all (exportArgs g)\<close> show ?thesis by auto
    next
      case True
      with assms \<open>\<not> all (exportArgs g)\<close> gt Inr git
      have "exportGitCredentials d ctx kubeClient repository w1 = (r, w')"
        by (auto simp add: exportSourceGitCmdRun_body_def Get_GitRepository_def emit_def Let_def)
      from exportGitCredentials_events [OF this]
      obtain evs2 where "trace w' = trace w1 @ evs2" "list_all (tail_event True ctx) evs2"
        by blast
      with evs1 True \<open>\<not> all (exportArgs g)\<close>
      have "trace w' = trace w @
             [NewKubeClient (kubeconfig (rootArgs g)) (kubecontext (rootArgs g)),
              if all (exportArgs g) then CallList ctx (namespace (rootArgs g))
              else CallGetGitRepository ctx ?key] @ (evs1 @ evs2)
           \<and> list_all (tail_event (exportSourceWithCred g) ctx) (evs1 @ evs2)"
        by simp
      then show ?thesis by blast
    qed
  qed
qed


lemma run_events:
  "(\<not> all (exportArgs g) \<and> args = [] \<and> snd (exportSourceGitCmdRun d g args w) = w)
   \<or> (\<not> (\<not> all (exportArgs g) \<and> args = [])
      \<and> isl (KubeClient d (kubeconfig (rootArgs g)) (kubecontext (rootArgs g)))
      \<and> trace (snd (exportSourceGitCmdRun d g args w)) = trace w @
           [NewKubeClient (kubeconfig (rootArgs g)) (kubecontext (rootArgs g)), Cancelled])
   \<or> (\<not> (\<not> all (exportArgs g) \<and> args = [])
      \<and> \<not> isl (KubeClient d (kubeconfig (rootArgs g)) (kubecontext (rootArgs g)))
      \<and> (\<exists>evs. trace (snd (exportSourceGitCmdRun d g args w)) = trace w @
             [NewKubeClient (kubeconfig (rootArgs g)) (kubecontext (rootArgs g)),
              if all (exportArgs g)
              then CallList (WithTimeout Background (timeout (rootArgs g))) (namespace (rootArgs g))
              else CallGetGitRepository (WithTimeout Background (timeout (rootArgs g)))
                     \<lparr>nn_Namespace = namespace (rootArgs g), nn_Name = args ! 0\<rparr>]
             @ evs @ [Cancelled]
           \<and> list_all (tail_event (exportSourceWithCred g)
                          (WithTimeout Background (timeout (rootArgs g)))) evs))"
proof (cases "\<not> all (exportArgs g) \<and> args = []")
  case True
  then show ?thesis by (simp add: exportSourceGitCmdRun_def)
next
  case False
  let ?ctx = "WithTimeout Background (timeout (rootArgs g))"
  obtain r w' where body: "exportSourceGitCmdRun_body d g ?ctx args w = (r, w')"
    by (cases "exportSourceGitCmdRun_body d g ?ctx args w")
  with False have run: "snd (exportSourceGitCmdRun d g args w) = w'\<lparr>trace := trace w' @ [Cancelled]\<rparr>"
    by (auto simp add: exportSourceGitCmdRun_def emit_def Let_def)
  show ?thesis
  proof (cases "KubeClient d (kubeconfig (rootArgs g)) (kubecontext (rootArgs g))")
    case (Inl err)
    with body have "trace w' = trace w @
        [NewKubeClient (kubeconfig (rootArgs g)) (kubecontext (rootArgs g))]"
      by (auto simp add: exportSourceGitCmdRun_body_def emit_def Let_def)
    with False Inl run show ?thesis by simp
  next
    case (Inr kubeClient)
    from body_events [OF body Inr]
    obtain evs where "trace w' = trace w @
             [NewKubeClient (kubeconfig (rootArgs g)) (kubecontext (rootArgs g)),
              if all (exportArgs g) then CallList ?ctx (namespace (rootArgs g))
              else CallGetGitRepository ?ctx
                     \<lparr>nn_Namespace = namespace (rootArgs g), nn_Name = args ! 0\<rparr>] @ evs"
        "list_all (tail_event (exportSourceWithCred g) ?ctx) evs"
      by blast
    with False Inr run show ?thesis by auto
  qed
qed

subsection \<open>The context of the calls\<close>

text \<open>
  C7. Every call to the API client that an invocation makes, the List, the Get of the
  repository and the Gets of Secrets, is made under the same context: the background
  context with the timeout of the root flags. The context is cancelled by the deferred
  call only, which is the last thing the invocation does: no call comes after it.
\<close>

theorem calls_under_one_context:
  "\<exists>evs. trace (snd (exportSourceGitCmdRun d g args w)) = trace w @ evs
     \<and> (\<forall>ev\<in>set evs. call_context ev = None
           \<or> call_context ev = Some (WithTimeout Background (timeout (rootArgs g))))
     \<and> Cancelled \<notin> set (butlast evs)"
proof -
  let ?ctx = "WithTimeout Background (timeout (rootArgs g))"
  let ?new = "NewKubeClient (kubeconfig (rootArgs g)) (kubecontext (rootArgs g))"
  let ?call = "if all (exportArgs g) then CallList ?ctx (namespace (rootArgs g))
               else CallGetGitRepository ?ctx
                      \<lparr>nn_Namespace = namespace (rootArgs g), nn_Name = args ! 0\<rparr>"
  from run_events [of g args d w] consider
      (rejected) "snd (exportSourceGitCmdRun d g args w) = w"
    | (no_client) "trace (snd (exportSourceGitCmdRun d g args w)) = trace w @ [?new, Cancelled]"
    | (called) evs where
        "trace (snd (exportSourceGitCmdRun d g args w)) = trace w @ [?new, ?call] @ evs @ [Cancelled]"
        "list_all (tail_event (exportSourceWithCred g) ?ctx) evs"
    by blast
  then show ?thesis
  proof cases
    case rejected
    then have "trace (snd (exportSourceGitCmdRun d g args w)) = trace w @ []" by simp
    then show ?thesis by (intro exI [of _ "[]"]) simp
  next
    case no_client
    then show ?thesis by (intro exI [of _ "[?new, Cancelled]"]) simp
  next
    case called
    from tail_event_facts(2,3) [OF called(2)]
    have "Cancelled \<notin> set evs"
      and "\<forall>ev\<in>set evs. call_context ev = None \<or> call_context ev = Some ?ctx"
      by blast+
    with called(1) show ?thesis
      by (intro exI [of _ "[?new, ?call] @ evs @ [Cancelled]"]) (auto simp add: butlast_append)
  qed
qed

theorem calls_under_one_context_witness:
  "trace (snd (exportSourceGitCmdRun example_deps (example_globals True True) []
                 (example_cluster [private_repository, public_repository] [podinfo_auth] True))) =
     [NewKubeClient ''config'' [], CallList example_ctx ''flux-system'',
      Printed ''---'', Printed ''kind: GitRepository, name: podinfo'',
      CallGetSecret example_ctx \<lparr>nn_Namespace = ''flux-system'', nn_Name = ''podinfo-auth''\<rparr>,
      Printed ''---'', Printed ''kind: Secret, name: podinfo-auth'',
      Printed ''---'', Printed ''kind: GitRepository, name: public'',
      Cancelled]
   \<and> list_all (\<lambda>ev. call_context ev = None \<or> call_context ev = Some example_ctx)
       (trace (snd (exportSourceGitCmdRun example_deps (example_globals True True) []
                 (example_cluster [private_repository, public_repository] [podinfo_auth] True))))
   \<and> timeout (rootArgs (example_globals True True)) = 300000000000
   \<and> example_ctx = WithTimeout Background 300000000000"
proof -
  have run: "trace (snd (exportSourceGitCmdRun example_deps (example_globals True True) []
                 (example_cluster [private_repository, public_repository] [podinfo_auth] True))) =
     [NewKubeClient ''config'' [], CallList example_ctx ''flux-system'',
      Printed ''---'', Printed ''kind: GitRepository, name: podinfo'',
      CallGetSecret example_ctx \<lparr>nn_Namespace = ''flux-system'', nn_Name = ''podinfo-auth''\<rparr>,
      Printed ''---'', Printed ''kind: Secret, name: podinfo-auth'',
      Printed ''---'', Printed ''kind: GitRepository, name: public'',
      Cancelled]"
    by (simp add: example_defs run_defs)
  have ctx: "WithTimeout Background (timeout (rootArgs (example_globals True True))) = example_ctx"
    by (simp add: example_globals_def example_ctx_def)
  from calls_under_one_context [where d = example_deps and g = "example_globals True True"
      and args = "[]"
      and w = "example_cluster [private_repository, public_repository] [podinfo_auth] True"]
  have "\<forall>ev\<in>set (trace (snd (exportSourceGitCmdRun example_deps (example_globals True True) []
                 (example_cluster [private_repository, public_repository] [podinfo_auth] True)))).
          call_context ev = None \<or> call_context ev = Some example_ctx"
    unfolding ctx by (auto simp add: example_cluster_def)
  then show ?thesis
    using run by (simp add: list_all_iff example_globals_def example_ctx_def)
qed

subsection \<open>The number of calls\<close>

text \<open>
  C6. Every invocation is said to issue exactly one API-client call. The export by name
  of a repository with its credentials issues two, the Get of the repository and the
  Get of its Secret; the invocation without a name issues none.
\<close>

theorem two_calls_and_no_call:
  "filter is_api_call
     (trace (snd (exportSourceGitCmdRun example_deps (example_globals False True) [''podinfo'']
                    (example_cluster [private_repository] [podinfo_auth] True)))) =
     [CallGetGitRepository example_ctx \<lparr>nn_Namespace = ''flux-system'', nn_Name = ''podinfo''\<rparr>,
      CallGetSecret example_ctx \<lparr>nn_Namespace = ''flux-system'', nn_Name = ''podinfo-auth''\<rparr>]
   \<and> length (filter is_api_call
       (trace (snd (exportSourceGitCmdRun example_deps (example_globals False True) [''podinfo'']
                      (example_cluster [private_repository] [podinfo_auth] True))))) = 2
   \<and> length (filter is_api_call
       (trace (snd (exportSourceGitCmdRun example_deps (example_globals False True) []
                      (example_cluster [private_repository] [podinfo_auth] True))))) = 0"
  by (simp add: example_defs run_defs is_api_call_def)

subsection \<open>The Gets of Secrets\<close>

text \<open>
  The Gets of Secrets that the loop issues are, in order, those its items ask for, up to
  the item at which it stops; \<open>exportGitCredentials\<close> issues exactly the one Get its
  repository asks for.
\<close>

lemma length_secret_calls_for:
  "length (secret_calls_for ctx items) = length (filter has_SecretRef items)"
  by (induction items) (auto simp add: has_SecretRef_def split: option.splits)

lemma exportGitCredentials_secret_calls:
  assumes "exportGitCredentials d ctx kubeClient source w = (r, w')"
    and "trace w' = trace w @ evs"
  shows "filter is_secret_call evs = secret_calls_for ctx [source]"
  using assms
  by (auto simp add: exportGitCredentials_def Get_Secret_def Println_def emit_def Let_def
      split: sum.splits option.splits prod.splits)

lemma loop_secret_calls:
  assumes "exportSourceGitCmdRun_loop d g ctx kubeClient items w = (r, w')"
    and "trace w' = trace w @ evs"
  shows "prefix (filter is_secret_call evs) (secret_calls_for ctx items)"
  using assms
proof (induction items arbitrary: w evs)
  case Nil
  then show ?case by simp
next
  case (Cons repository items)
  obtain r1 w1 where git: "exportGit d repository w = (r1, w1)"
    by (cases "exportGit d repository w")
  from exportGit_events [OF git, of "exportSourceWithCred g" ctx]
  obtain evs1 where evs1: "trace w1 = trace w @ evs1" "filter is_secret_call evs1 = []"
    by blast
  show ?case
  proof (cases r1)
    case (Some err)
    with Cons.prems git have "w' = w1" by simp
    with evs1 Cons.prems(2) have "evs = evs1" by simp
    with evs1 show ?thesis by simp
  next
    case None
    show ?thesis
    proof (cases "exportSourceWithCred g")
      case False
      with Cons.prems(1) git None
      have loop: "exportSourceGitCmdRun_loop d g ctx kubeClient items w1 = (r, w')" by simp
      from loop_events [OF loop]
      obtain evs3 where evs3: "trace w' = trace w1 @ evs3"
          "list_all (tail_event (exportSourceWithCred g) ctx) evs3"
        by blast
      from tail_event_facts(4) [OF evs3(2)] False have "filter is_secret_call evs3 = []"
        by simp
      moreover from evs1 evs3 Cons.prems(2) have "evs = evs1 @ evs3" by simp
      ultimately show ?thesis using evs1 by simp
    next
      case True
      obtain r2 w2 where cred: "exportGitCredentials d ctx kubeClient repository w1 = (r2, w2)"
        by (cases "exportGitCredentials d ctx kubeClient repository w1")
      from exportGitCredentials_events [OF cred]
      obtain evs2 where evs2: "trace w2 = trace w1 @ evs2"
        by blast
      from exportGitCredentials_secret_calls [OF cred evs2]
      have head: "filter is_secret_call evs2 = secret_calls_for ctx [repository]" .
      have split: "secret_calls_for ctx (repository # items) =
                     secret_calls_for ctx [repository] @ secret_calls_for ctx items"
        by (simp split: option.splits)
      show ?thesis
      proof (cases r2)
        case (Some err)
        with Cons.prems(1) git None True cred have "w' = w2" by simp
        with evs1 evs2 Cons.prems(2) have "evs = evs1 @ evs2" by simp
        with evs1 head show ?thesis unfolding split by simp
      next
        case None': None
        with Cons.prems(1) git None True cred
        have loop: "exportSourceGitCmdRun_loop d g ctx kubeClient items w2 = (r, w')" by simp
        from loop_events [OF loop]
        obtain evs3 where evs3: "trace w' = trace w2 @ evs3"
          by blast
        from Cons.IH [OF loop evs3]
        have rest: "prefix (filter is_secret_call evs3) (secret_calls_for ctx items)" .
        from evs1 evs2 evs3 Cons.prems(2) have "evs = evs1 @ evs2 @ evs3" by simp
        with evs1 head rest show ?thesis unfolding split by simp
      qed
    qed
  qed
qed

lemma body_secret_calls:
  assumes "exportSourceGitCmdRun_body d g ctx args w = (r, w')"
    and "KubeClient d (kubeconfig (rootArgs g)) (kubecontext (rootArgs g)) = Inr kubeClient"
    and "trace w' = trace w @
           [NewKubeClient (kubeconfig (rootArgs g)) (kubecontext (rootArgs g)), call] @ evs"
  shows "prefix (filter is_secret_call evs)
           (secret_calls_for ctx (sources_read kubeClient g ctx args (cluster w)))"
proof (cases "all (exportArgs g)")
  case True
  obtain res k where ls: "client_List kubeClient (cluster w) ctx (namespace (rootArgs g)) = (res, k)"
    by (cases "client_List kubeClient (cluster w) ctx (namespace (rootArgs g))")
  show ?thesis
  proof (cases res)
    case (Inl err)
    with assms True ls show ?thesis
      by (auto simp add: exportSourceGitCmdRun_body_def List_call_def emit_def Let_def)
  next
    case (Inr items)
    show ?thesis
    proof (cases "items = []")
      case True
      with assms \<open>all (exportArgs g)\<close> ls Inr show ?thesis
        by (auto simp add: exportSourceGitCmdRun_body_def List_call_def emit_def Let_def
            Failuref_def)
    next
      case False
      let ?w1 = "\<lparr>cluster = k,
               trace = trace w @
                 [NewKubeClient (kubeconfig (rootArgs g)) (kubecontext (rootArgs g)),
                  CallList ctx (namespace (rootArgs g))]\<rparr>"
      from False assms(1,2) \<open>all (exportArgs g)\<close> ls Inr
      have loop: "exportSourceGitCmdRun_loop d g ctx kubeClient items ?w1 = (r, w')"
        by (simp add: exportSourceGitCmdRun_body_def List_call_def emit_def Let_def)
      from loop_events [OF loop]
      obtain evs' where evs': "trace w' = trace ?w1 @ evs'" by blast
      with assms(3) have "evs = evs'" by simp
      with loop_secret_calls [OF loop evs'] \<open>all (exportArgs g)\<close> ls Inr show ?thesis
        by (simp add: sources_read_def)
    qed
  qed
next
  case False
  let ?key = "\<lparr>nn_Namespace = namespace (rootArgs g), nn_Name = args ! 0\<rparr>"
  let ?w1 = "\<lambda>k. \<lparr>cluster = k,
               trace = trace w @
                 [NewKubeClient (kubeconfig (rootArgs g)) (kubecontext (rootArgs g)),
                  CallGetGitRepository ctx ?key]\<rparr>"
  obtain res k where gt: "client_Get_GitRepository kubeClient (cluster w) ctx ?key = (res, k)"
    by (cases "client_Get_GitRepository kubeClient (cluster w) ctx ?key")
  show ?thesis
  proof (cases res)
    case (Inl err)
    with assms False gt show ?thesis
      by (auto simp add: exportSourceGitCmdRun_body_def Get_GitRepository_def emit_def Let_def)
  next
    case (Inr repository)
    have src: "sources_read kubeClient g ctx args (cluster w) = [repository]"
      using False gt Inr by (simp add: sources_read_def)
    obtain r1 w1 where git: "exportGit d repository (?w1 k) = (r1, w1)"
      by (cases "exportGit d repository (?w1 k)")
    from exportGit_events [OF git, of "exportSourceWithCred g" ctx]
    obtain evs1 where evs1: "trace w1 = trace (?w1 k) @ evs1" "filter is_secret_call evs1 = []"
      by blast
    show ?thesis
    proof (cases "r1 = None \<and> exportSourceWithCred g")
      case False
      with assms(1,2) \<open>\<not> all (exportArgs g)\<close> gt Inr git have "w' = w1"
        by (cases r1)
          (auto simp add: exportSourceGitCmdRun_body_def Get_GitRepository_def emit_def Let_def)
      with evs1 assms(3) have "evs = evs1" by simp
      with evs1 show ?thesis by simp
    next
      case True
      with assms(1,2) \<open>\<not> all (exportArgs g)\<close> gt Inr git
      have cred: "exportGitCredentials d ctx kubeClient repository w1 = (r, w')"
        by (auto simp add: exportSourceGitCmdRun_body_def Get_GitRepository_def emit_def Let_def)
      from exportGitCredentials_events [OF cred]
      obtain evs2 where evs2: "trace w' = trace w1 @ evs2" by blast
      from exportGitCredentials_secret_calls [OF cred evs2]
      have "filter is_secret_call evs2 = secret_calls_for ctx [repository]" .
      moreover from evs1 evs2 assms(3) have "evs = evs1 @ evs2" by simp
      ultimately show ?thesis using evs1 src by simp
    qed
  qed
qed


lemma api_calls_without_source_calls:
  assumes "filter is_source_call evs = []"
  shows "filter is_api_call evs = filter is_secret_call evs"
proof (rule filter_cong [OF refl])
  fix ev assume "ev \<in> set evs"
  with assms have "\<not> is_source_call ev" by (simp add: filter_empty_conv)
  then show "is_api_call ev = is_secret_call ev" by (simp add: is_api_call_def)
qed

text \<open>
  C6, amended. An invocation that is stopped by the check of its arguments, or that gets
  no client, issues no API-client call. Every other invocation issues exactly one call
  that reads GitRepository objects: the List in \<^verbatim>\<open>--all\<close> mode, the Get of the named
  repository otherwise; it is the first call of the invocation. Without
  \<^verbatim>\<open>--with-credentials\<close> that is its only call. With it, the further calls of the
  invocation are Gets of Secrets: in order, those that the repositories read by the
  first call ask for, up to the repository at which the command stops, hence at most
  one for each repository read that has a \<open>SecretRef\<close>. The same holds of the parts:
  \<open>exportGitCredentials\<close> issues at most one Get, none for a repository without
  \<open>SecretRef\<close>, and the loop at most as many as there are items with a \<open>SecretRef\<close>.
\<close>

theorem calls_of_an_invocation:
  "(\<exists>evs. trace (snd (exportSourceGitCmdRun d g args w)) = trace w @ evs
      \<and> (if \<not> all (exportArgs g) \<and> args = [] then filter is_api_call evs = []
          else
            (case KubeClient d (kubeconfig (rootArgs g)) (kubecontext (rootArgs g)) of
               Inl err \<Rightarrow> filter is_api_call evs = []
             | Inr kubeClient \<Rightarrow>
                 filter is_source_call evs =
                   [if all (exportArgs g)
                    then CallList (WithTimeout Background (timeout (rootArgs g)))
                           (namespace (rootArgs g))
                    else CallGetGitRepository (WithTimeout Background (timeout (rootArgs g)))
                           \<lparr>nn_Namespace = namespace (rootArgs g), nn_Name = args ! 0\<rparr>]
                 \<and> filter is_api_call evs =
                     (if all (exportArgs g)
                      then CallList (WithTimeout Background (timeout (rootArgs g)))
                             (namespace (rootArgs g))
                      else CallGetGitRepository (WithTimeout Background (timeout (rootArgs g)))
                             \<lparr>nn_Namespace = namespace (rootArgs g), nn_Name = args ! 0\<rparr>)
                     # filter is_secret_call evs
                 \<and> (\<not> exportSourceWithCred g \<longrightarrow> filter is_secret_call evs = [])
                 \<and> prefix (filter is_secret_call evs)
                     (secret_calls_for (WithTimeout Background (timeout (rootArgs g)))
                        (sources_read kubeClient g (WithTimeout Background (timeout (rootArgs g)))
                           args (cluster w)))
                 \<and> length (filter is_secret_call evs)
                     \<le> length (filter has_SecretRef
                          (sources_read kubeClient g
                             (WithTimeout Background (timeout (rootArgs g))) args (cluster w))))))
   \<and> (\<exists>evs. trace (snd (exportGitCredentials d ctx kubeClient source w)) = trace w @ evs
      \<and> filter is_source_call evs = []
      \<and> filter is_secret_call evs = secret_calls_for ctx [source]
      \<and> length (filter is_secret_call evs) \<le> (if has_SecretRef source then 1 else 0))
   \<and> (\<exists>evs. trace (snd (exportSourceGitCmdRun_loop d g ctx kubeClient items w)) = trace w @ evs
      \<and> filter is_source_call evs = []
      \<and> prefix (filter is_secret_call evs) (secret_calls_for ctx items)
      \<and> length (filter is_secret_call evs) \<le> length (filter has_SecretRef items))"
proof (intro conjI)
  let ?ctx = "WithTimeout Background (timeout (rootArgs g))"
  let ?new = "NewKubeClient (kubeconfig (rootArgs g)) (kubecontext (rootArgs g))"
  let ?call = "if all (exportArgs g) then CallList ?ctx (namespace (rootArgs g))
               else CallGetGitRepository ?ctx
                      \<lparr>nn_Namespace = namespace (rootArgs g), nn_Name = args ! 0\<rparr>"
  let ?client = "KubeClient d (kubeconfig (rootArgs g)) (kubecontext (rootArgs g))"
  let ?goal = "\<lambda>evs. if \<not> all (exportArgs g) \<and> args = [] then filter is_api_call evs = []
          else
            (case ?client of
               Inl err \<Rightarrow> filter is_api_call evs = []
             | Inr kubeClient \<Rightarrow>
                 filter is_source_call evs = [?call]
                 \<and> filter is_api_call evs = ?call # filter is_secret_call evs
                 \<and> (\<not> exportSourceWithCred g \<longrightarrow> filter is_secret_call evs = [])
                 \<and> prefix (filter is_secret_call evs)
                     (secret_calls_for ?ctx (sources_read kubeClient g ?ctx args (cluster w)))
                 \<and> length (filter is_secret_call evs)
                     \<le> length (filter has_SecretRef
                          (sources_read kubeClient g ?ctx args (cluster w))))"
  from run_events [of g args d w] consider
      (rejected) "\<not> all (exportArgs g) \<and> args = []"
        "snd (exportSourceGitCmdRun d g args w) = w"
    | (no_client) "\<not> (\<not> all (exportArgs g) \<and> args = [])" "isl ?client"
        "trace (snd (exportSourceGitCmdRun d g args w)) = trace w @ [?new, Cancelled]"
    | (called) evs where "\<not> (\<not> all (exportArgs g) \<and> args = [])" "\<not> isl ?client"
        "trace (snd (exportSourceGitCmdRun d g args w)) = trace w @ [?new, ?call] @ evs @ [Cancelled]"
        "list_all (tail_event (exportSourceWithCred g) ?ctx) evs"
    by blast
  then show "\<exists>evs. trace (snd (exportSourceGitCmdRun d g args w)) = trace w @ evs \<and> ?goal evs"
  proof cases
    case rejected
    then have "trace (snd (exportSourceGitCmdRun d g args w)) = trace w @ [] \<and> ?goal []"
      by simp
    then show ?thesis by blast
  next
    case no_client
    from no_client(2) obtain err where "?client = Inl err" by (cases ?client) auto
    with no_client(1,3)
    have "trace (snd (exportSourceGitCmdRun d g args w)) = trace w @ [?new, Cancelled]
          \<and> ?goal [?new, Cancelled]"
      by (simp add: is_api_call_def)
    then show ?thesis by blast
  next
    case called
    from called(2) obtain kubeClient where client: "?client = Inr kubeClient"
      by (cases ?client) auto
    obtain r w' where body: "exportSourceGitCmdRun_body d g ?ctx args w = (r, w')"
      by (cases "exportSourceGitCmdRun_body d g ?ctx args w")
    with called(1)
    have "snd (exportSourceGitCmdRun d g args w) = w'\<lparr>trace := trace w' @ [Cancelled]\<rparr>"
      by (auto simp add: exportSourceGitCmdRun_def emit_def Let_def)
    with called(3) have tr: "trace w' = trace w @ [?new, ?call] @ evs"
      by simp
    from body_secret_calls [OF body client tr]
    have pre: "prefix (filter is_secret_call evs)
                 (secret_calls_for ?ctx (sources_read kubeClient g ?ctx args (cluster w)))" .
    from prefix_length_le [OF pre]
    have len: "length (filter is_secret_call evs)
                 \<le> length (filter has_SecretRef (sources_read kubeClient g ?ctx args (cluster w)))"
      by (simp add: length_secret_calls_for)
    from tail_event_facts(1,4) [OF called(4)]
    have src: "filter is_source_call evs = []"
      and nocred: "\<not> exportSourceWithCred g \<Longrightarrow> filter is_secret_call evs = []"
      by blast+
    from api_calls_without_source_calls [OF src]
    have api: "filter is_api_call evs = filter is_secret_call evs" .
    let ?evs = "[?new, ?call] @ evs @ [Cancelled]"
    have src': "filter is_source_call ?evs = [?call]"
      using src by simp
    have sec': "filter is_secret_call ?evs = filter is_secret_call evs"
      by simp
    have api': "filter is_api_call ?evs = ?call # filter is_secret_call evs"
      using api by (simp add: is_api_call_def)
    have "?goal ?evs"
      unfolding src' sec' api' using called(1) client pre len nocred by simp
    with called(3) show ?thesis by blast
  qed
next
  obtain r w' where cred: "exportGitCredentials d ctx kubeClient source w = (r, w')"
    by (cases "exportGitCredentials d ctx kubeClient source w")
  from exportGitCredentials_events [OF cred]
  obtain evs where evs: "trace w' = trace w @ evs" "list_all (tail_event True ctx) evs"
      "length (filter is_secret_call evs) \<le> (if has_SecretRef source then 1 else 0)"
    by blast
  from tail_event_facts(1) [OF evs(2)] exportGitCredentials_secret_calls [OF cred evs(1)]
    evs(1,3) cred
  show "\<exists>evs. trace (snd (exportGitCredentials d ctx kubeClient source w)) = trace w @ evs
      \<and> filter is_source_call evs = []
      \<and> filter is_secret_call evs = secret_calls_for ctx [source]
      \<and> length (filter is_secret_call evs) \<le> (if has_SecretRef source then 1 else 0)"
    by auto
next
  obtain r w' where loop: "exportSourceGitCmdRun_loop d g ctx kubeClient items w = (r, w')"
    by (cases "exportSourceGitCmdRun_loop d g ctx kubeClient items w")
  from loop_events [OF loop]
  obtain evs where evs: "trace w' = trace w @ evs"
      "list_all (tail_event (exportSourceWithCred g) ctx) evs"
      "length (filter is_secret_call evs) \<le> length (filter has_SecretRef items)"
    by blast
  from tail_event_facts(1) [OF evs(2)] loop_secret_calls [OF loop evs(1)] evs(1,3) loop
  show "\<exists>evs. trace (snd (exportSourceGitCmdRun_loop d g ctx kubeClient items w)) = trace w @ evs
      \<and> filter is_source_call evs = []
      \<and> prefix (filter is_secret_call evs) (secret_calls_for ctx items)
      \<and> length (filter is_secret_call evs) \<le> length (filter has_SecretRef items)"
    by auto
qed

theorem calls_of_an_invocation_witness:
  "filter is_source_call
     (trace (snd (exportSourceGitCmdRun example_deps (example_globals False False) [''podinfo'']
                    (example_cluster [private_repository] [podinfo_auth] True)))) =
     [CallGetGitRepository example_ctx \<lparr>nn_Namespace = ''flux-system'', nn_Name = ''podinfo''\<rparr>]
   \<and> filter is_secret_call
     (trace (snd (exportSourceGitCmdRun example_deps (example_globals False False) [''podinfo'']
                    (example_cluster [private_repository] [podinfo_auth] True)))) = []
   \<and> filter is_api_call
     (trace (snd (exportSourceGitCmdRun example_deps (example_globals False False) []
                    (example_cluster [private_repository] [podinfo_auth] True)))) = []
   \<and> filter is_api_call
     (trace (snd (exportSourceGitCmdRun example_deps (example_globals False True) [''podinfo'']
                    (example_cluster [private_repository] [podinfo_auth] True)))) =
     [CallGetGitRepository example_ctx \<lparr>nn_Namespace = ''flux-system'', nn_Name = ''podinfo''\<rparr>,
      CallGetSecret example_ctx \<lparr>nn_Namespace = ''flux-system'', nn_Name = ''podinfo-auth''\<rparr>]
   \<and> secret_calls_for example_ctx
       (sources_read example_client (example_globals False True) example_ctx [''podinfo'']
          (cluster (example_cluster [private_repository] [podinfo_auth] True))) =
     [CallGetSecret example_ctx \<lparr>nn_Namespace = ''flux-system'', nn_Name = ''podinfo-auth''\<rparr>]
   \<and> filter is_api_call
     (trace (snd (exportSourceGitCmdRun example_deps (example_globals True True) []
                    (example_cluster [public_repository, private_repository, private_repository]
                       [] True)))) =
     [CallList example_ctx ''flux-system'',
      CallGetSecret example_ctx \<lparr>nn_Namespace = ''flux-system'', nn_Name = ''podinfo-auth''\<rparr>]
   \<and> secret_calls_for example_ctx
       (sources_read example_client (example_globals True True) example_ctx []
          (cluster (example_cluster [public_repository, private_repository, private_repository]
                      [] True))) =
     [CallGetSecret example_ctx \<lparr>nn_Namespace = ''flux-system'', nn_Name = ''podinfo-auth''\<rparr>,
      CallGetSecret example_ctx \<lparr>nn_Namespace = ''flux-system'', nn_Name = ''podinfo-auth''\<rparr>]
   \<and> length (filter is_secret_call
        (trace (snd (exportSourceGitCmdRun_loop example_deps (example_globals True True)
                       example_ctx example_client [private_repository, public_repository]
                       (example_cluster [private_repository, public_repository]
                          [podinfo_auth] True))))) = 1
   \<and> length (filter has_SecretRef [private_repository, public_repository]) = 1"
  using calls_of_an_invocation [where d = example_deps and g = "example_globals False False"
      and args = "[''podinfo'']"
      and w = "example_cluster [private_repository] [podinfo_auth] True"
      and ctx = example_ctx and kubeClient = example_client and source = private_repository
      and items = "[]"]
    calls_of_an_invocation [where d = example_deps and g = "example_globals False False"
      and args = "[]"
      and w = "example_cluster [private_repository] [podinfo_auth] True"
      and ctx = example_ctx and kubeClient = example_client and source = private_repository
      and items = "[]"]
    calls_of_an_invocation [where d = example_deps and g = "example_globals False True"
      and args = "[''podinfo'']"
      and w = "example_cluster [private_repository] [podinfo_auth] True"
      and ctx = example_ctx and kubeClient = example_client and source = private_repository
      and items = "[]"]
    calls_of_an_invocation [where d = example_deps and g = "example_globals True True"
      and args = "[]"
      and w = "example_cluster [public_repository, private_repository, private_repository]
                 [] True"
      and ctx = example_ctx and kubeClient = example_client and source = private_repository
      and items = "[private_repository, public_repository]"]
  by (simp add: example_defs run_defs is_api_call_def has_SecretRef_def sources_read_def)

end
